theory Spec2Isabelle
  imports Complex_Main
begin

section \<open>Python values and failures\<close>

text \<open>
  The converter is one Python script with four classes: \<open>WindGrid\<close>, \<open>WindData\<close>,
  \<open>OwiNetcdf\<close> and \<open>OwiAscii\<close>. An exception is a value: a function that can raise
  returns \<open>error + 'a\<close>, and \<open>Inl\<close> carries the exception. A Python integer is an
  \<open>int\<close>. A float is the real number it stands for, and every arithmetic operation on
  floats is the exact operation followed by the rounding \<open>binary64\<close> to the nearest double.
\<close>

datatype error =
  IndexError | ValueError | RuntimeError | ZeroDivisionError | AttributeError | OverflowError

definition and_then :: "error + 'a \<Rightarrow> ('a \<Rightarrow> error + 'b) \<Rightarrow> error + 'b" where
  "and_then m f = (case m of Inl e \<Rightarrow> Inl e | Inr x \<Rightarrow> f x)"


text \<open>\<open>xs[i]\<close> on a list or on a numpy array: \<open>-1\<close> is the last element, and an index
  outside \<open>-len(xs) .. len(xs) - 1\<close> raises IndexError.\<close>

definition py_index :: "'a list \<Rightarrow> int \<Rightarrow> error + 'a" where
  "py_index xs i =
     (if 0 \<le> i \<and> i < int (length xs) then Inr (xs ! nat i)
      else if i < 0 \<and> - int (length xs) \<le> i then Inr (xs ! nat (int (length xs) + i))
      else Inl IndexError)"

text \<open>\<open>xs[i] = v\<close> on a list, with the same reading of the index.\<close>

definition py_setitem :: "'a list \<Rightarrow> int \<Rightarrow> 'a \<Rightarrow> error + 'a list" where
  "py_setitem xs i v =
     (if 0 \<le> i \<and> i < int (length xs) then Inr (xs[nat i := v])
      else if i < 0 \<and> - int (length xs) \<le> i then Inr (xs[nat (int (length xs) + i) := v])
      else Inl IndexError)"

text \<open>\<open>s[low:high]\<close> with \<open>0 \<le> low\<close> and \<open>0 \<le> high\<close>: the characters at the positions
  \<open>low .. high - 1\<close> that exist. A slice never raises.\<close>

definition py_slice :: "nat \<Rightarrow> nat \<Rightarrow> 'a list \<Rightarrow> 'a list" where
  "py_slice low high s = take (high - low) (drop low s)"

text \<open>\<open>math.ceil(n / 8)\<close> for an integer \<open>n\<close>: true division, then the ceiling.\<close>

definition ceil_div8 :: "int \<Rightarrow> int" where
  "ceil_div8 n = \<lceil>real_of_int n / 8\<rceil>"

text \<open>\<open>round(x)\<close> on a float, and \<open>numpy.rint\<close>: the nearest integer, a tie going to the
  even neighbour.\<close>

definition py_round :: "real \<Rightarrow> int" where
  "py_round x =
     (if x - of_int \<lfloor>x\<rfloor> < 1 / 2 then \<lfloor>x\<rfloor>
      else if 1 / 2 < x - of_int \<lfloor>x\<rfloor> then \<lfloor>x\<rfloor> + 1
      else if even \<lfloor>x\<rfloor> then \<lfloor>x\<rfloor> else \<lfloor>x\<rfloor> + 1)"

text \<open>
  The double nearest to a real number, a tie going to the even significand: 53 bits in
  the binade of \<open>x\<close>, and the fixed spacing \<open>2^-1074\<close> below \<open>2^-1022\<close>. Infinities and
  NaN are not values of the model: a result beyond the largest double is not sent to
  infinity.
\<close>

definition binary64 :: "real \<Rightarrow> real" where
  "binary64 x =
     (if x = 0 then 0
      else real_of_int (py_round (x / 2 powr (real_of_int (max \<lfloor>log 2 \<bar>x\<bar>\<rfloor> (- 1022)) - 52)))
             * 2 powr (real_of_int (max \<lfloor>log 2 \<bar>x\<bar>\<rfloor> (- 1022)) - 52))"

text \<open>\<open>round(x, 2)\<close> on a \<open>numpy.float64\<close>, which is what an element of a numpy array
  is: numpy multiplies by 100, rounds to an integer and divides by 100, each step in
  doubles.\<close>

definition np_round2 :: "real \<Rightarrow> real" where
  "np_round2 x = binary64 (real_of_int (py_round (binary64 (x * 100))) / 100)"

text \<open>
  \<open>numpy.arange(start, stop, step)\<close> on floats. The length is the ceiling of the double
  \<open>(stop - start) / step\<close>. Point 0 is \<open>start\<close>, point 1 is \<open>start + step\<close>, and numpy
  fills the rest from these two: \<open>start + k * delta\<close> with \<open>delta\<close> the computed
  difference of the first two points.
\<close>

definition arange_point :: "real \<Rightarrow> real \<Rightarrow> nat \<Rightarrow> real" where
  "arange_point start step k =
     (if k = 0 then start
      else if k = 1 then binary64 (start + step)
      else binary64 (start + binary64 (real k * binary64 (binary64 (start + step) - start))))"

text \<open>A zero step fails in the division: ZeroDivisionError on Python floats, ValueError
  from the length computation on numpy scalars. The caller says which of the two its
  arguments are.\<close>

definition arange :: "error \<Rightarrow> real \<Rightarrow> real \<Rightarrow> real \<Rightarrow> error + real list" where
  "arange zero_step start stop step =
     (if step = 0 then Inl zero_step
      else Inr (map (arange_point start step)
                  [0 ..< nat \<lceil>binary64 (binary64 (stop - start) / step)\<rceil>]))"

section \<open>WindGrid\<close>

text \<open>The private attributes of the class, under the names of their accessors. \<open>lon\<close> and
  \<open>lat\<close> are the two arrays of \<open>numpy.meshgrid\<close>: one row per latitude, one column per
  longitude.\<close>

record WindGrid =
  n_longitude :: nat
  n_latitude :: nat
  d_longitude :: real
  d_latitude :: real
  xll :: real
  yll :: real
  xur :: real
  yur :: real
  lon :: "real list list"
  lat :: "real list list"
  lon1d :: "real list"
  lat1d :: "real list"

text \<open>One element of \<open>numpy.where(lon > 180, lon - 360, lon)\<close>.\<close>

definition wrap_longitude :: "real \<Rightarrow> real" where
  "wrap_longitude x = (if 180 < x then x - 360 else x)"

text \<open>\<open>WindGrid.__init__(lon, lat)\<close>, on numpy arrays of doubles as every caller in the
  script passes them. \<open>lon[1] - lon[0]\<close> is the first statement that can raise:
  IndexError on an axis of fewer than two points. The steps are taken from the axes as
  given, before the longitudes are wrapped. \<open>min\<close> and \<open>max\<close> then run on axes that are
  not empty.\<close>

definition WindGrid_init :: "real list \<Rightarrow> real list \<Rightarrow> error + WindGrid" where
  "WindGrid_init lons lats =
     (if length lons < 2 then Inl IndexError
      else if length lats < 2 then Inl IndexError
      else Inr \<lparr> n_longitude = length lons,
                 n_latitude = length lats,
                 d_longitude = np_round2 (binary64 (lons ! 1 - lons ! 0)),
                 d_latitude = np_round2 (binary64 (lats ! 1 - lats ! 0)),
                 xll = Min (set (map wrap_longitude lons)),
                 yll = Min (set lats),
                 xur = Max (set (map wrap_longitude lons)),
                 yur = Max (set lats),
                 lon = replicate (length lats) (map wrap_longitude lons),
                 lat = map (\<lambda>y. replicate (length lons) y) lats,
                 lon1d = map wrap_longitude lons,
                 lat1d = lats \<rparr>)"

definition generate_equidistant_grid_from_grid :: "WindGrid \<Rightarrow> error + WindGrid" where
  "generate_equidistant_grid_from_grid grid =
     and_then (arange ValueError (xll grid) (xur grid) (d_longitude grid)) (\<lambda>x.
     and_then (arange ValueError (yll grid) (yur grid) (d_latitude grid)) (\<lambda>y.
     WindGrid_init x y))"

definition generate_equidistant_grid_from_corners ::
  "real \<Rightarrow> real \<Rightarrow> real \<Rightarrow> real \<Rightarrow> real \<Rightarrow> real \<Rightarrow> error + WindGrid" where
  "generate_equidistant_grid_from_corners x1 y1 x2 y2 dx dy =
     and_then (arange ZeroDivisionError x1 x2 dx) (\<lambda>x.
     and_then (arange ZeroDivisionError y1 y2 dy) (\<lambda>y.
     WindGrid_init x y))"

text \<open>The truth value Python gives an optional number in \<open>if x and y\<close>: \<open>None\<close> is
  false, and so is zero.\<close>

definition truthy :: "real option \<Rightarrow> bool" where
  "truthy v = (case v of None \<Rightarrow> False | Some x \<Rightarrow> x \<noteq> 0)"

text \<open>\<open>WindGrid.generate_equidistant_grid\<close>, a keyword argument left out being \<open>None\<close>.
  A \<open>WindGrid\<close> object is always true.\<close>

definition generate_equidistant_grid ::
  "WindGrid option \<Rightarrow> real option \<Rightarrow> real option \<Rightarrow> real option \<Rightarrow> real option
     \<Rightarrow> real option \<Rightarrow> real option \<Rightarrow> error + WindGrid" where
  "generate_equidistant_grid grid pxll pyll pxur pyur pdx pdy =
     (case grid of
        Some g \<Rightarrow> generate_equidistant_grid_from_grid g
      | None \<Rightarrow>
          if truthy pxll \<and> truthy pyll \<and> truthy pxur \<and> truthy pyur \<and> truthy pdx \<and> truthy pdy
          then generate_equidistant_grid_from_corners
                 (the pxll) (the pyll) (the pxur) (the pyur) (the pdx) (the pdy)
          else Inl RuntimeError)"

text \<open>A two-dimensional array of floats. A cell can hold \<open>None\<close>: the value \<open>get\<close> fills
  its pressure array with before the loop.\<close>

type_synonym field = "real option list list"

text \<open>\<open>scipy.interpolate.interp2d(x, y, z)(xnew, ynew)\<close> is a library function and a
  parameter of the model.\<close>

type_synonym interp2d =
  "real list \<Rightarrow> real list \<Rightarrow> field \<Rightarrow> real list \<Rightarrow> real list \<Rightarrow> error + field"


section \<open>WindData\<close>

text \<open>\<open>date\<close> is a \<open>datetime\<close>; the only use the script makes of it is the difference to
  1990-01-01 00:00:00, so it is held as that difference in seconds
  (\<open>delta.days * 86400 + delta.seconds\<close>).\<close>

record WindData =
  date :: int
  wind_grid :: WindGrid
  pressure :: field
  u_velocity :: field
  v_velocity :: field

section \<open>OwiNetcdf\<close>












section \<open>OwiAscii\<close>

text \<open>
  One object per time slice. The three file names stand for what the files hold: the
  lines of the pressure file as \<open>readlines\<close> returns them, the variables \<open>lon\<close>, \<open>lat\<close>
  and \<open>u10\<close> of the u file and \<open>v10\<close> of the v file (one field per sample of the wind
  series). The other attributes are those \<open>__init__\<close> computes.
\<close>

record OwiAscii =
  u_lon :: "real list"
  u_lat :: "real list"
  u10 :: "field list"
  v10 :: "field list"
  pre_lines :: "string list"
  self_idx :: int
  num_lats :: int
  num_lons :: int
  pre_idx_header_row :: int
  self_date :: int
  self_grid :: WindGrid

text \<open>\<open>OwiAscii.__get_pre_idx_header_row\<close>: the 0-based line of the header of record
  \<open>idx\<close> in the pressure file.\<close>

definition get_pre_idx_header_row :: "int \<Rightarrow> int \<Rightarrow> int \<Rightarrow> int" where
  "get_pre_idx_header_row n_lats n_lons idx = 1 + ceil_div8 (n_lats * n_lons) * idx + idx"

text \<open>The text \<open>get\<close> hands to \<open>float\<close> for value number \<open>i\<close>:
  \<open>lines[line_idx][low_idx:high_idx]\<close>.\<close>

definition field_text :: "string list \<Rightarrow> int \<Rightarrow> nat \<Rightarrow> error + string" where
  "field_text lines hdr i =
     and_then (py_index lines (hdr + 1 + int (i div 8)))
       (\<lambda>line. Inr (py_slice (1 + 10 * (i mod 8)) (10 + 10 * (i mod 8)) line))"

text \<open>One turn of the loop of \<open>get\<close>. \<open>float_of\<close> is Python's \<open>float\<close> on a string,
  \<open>None\<close> where it raises ValueError. The right-hand side of the assignment is evaluated
  before \<open>prmsl[lat_idx]\<close> is looked up.\<close>

definition prmsl_step ::
  "(string \<Rightarrow> real option) \<Rightarrow> string list \<Rightarrow> int \<Rightarrow> int \<Rightarrow> nat \<Rightarrow> field \<Rightarrow> error + field"
  where
  "prmsl_step float_of lines hdr n_lons i prmsl =
     (if n_lons = 0 then Inl ZeroDivisionError
      else
        and_then (field_text lines hdr i) (\<lambda>txt.
        case float_of txt of
          None \<Rightarrow> Inl ValueError
        | Some v \<Rightarrow>
            and_then (py_index prmsl (int i div n_lons)) (\<lambda>row.
            and_then (py_setitem row (int i mod n_lons) (Some v)) (\<lambda>row'.
            py_setitem prmsl (int i div n_lons) row'))))"

fun prmsl_loop ::
  "(string \<Rightarrow> real option) \<Rightarrow> string list \<Rightarrow> int \<Rightarrow> int \<Rightarrow> nat list \<Rightarrow> field \<Rightarrow> error + field"
  where
  "prmsl_loop float_of lines hdr n_lons [] prmsl = Inr prmsl"
| "prmsl_loop float_of lines hdr n_lons (i # rest) prmsl =
     (case prmsl_step float_of lines hdr n_lons i prmsl of
        Inl e \<Rightarrow> Inl e
      | Inr prmsl' \<Rightarrow> prmsl_loop float_of lines hdr n_lons rest prmsl')"

text \<open>The first half of \<open>get\<close>: the pressure field of the record, \<open>num_lats\<close> rows of
  \<open>num_lons\<close> cells. \<open>range\<close> of a negative number is empty.\<close>

definition read_prmsl :: "(string \<Rightarrow> real option) \<Rightarrow> OwiAscii \<Rightarrow> error + field" where
  "read_prmsl float_of self =
     prmsl_loop float_of (pre_lines self) (pre_idx_header_row self) (num_lons self)
       [0 ..< nat (num_lats self * num_lons self)]
       (replicate (nat (num_lats self)) (replicate (nat (num_lons self)) None))"

text \<open>The index into the wind series: \<open>hbl_idx = (self.__idx - 384) * 15\<close>.\<close>

definition hbl_index :: "int \<Rightarrow> int" where
  "hbl_index idx = (idx - 384) * 15"

text \<open>\<open>OwiAscii.get()\<close>: the pressure field, then the u and the v sample at \<open>hbl_idx\<close>,
  each interpolated from the wind grid onto the grid of the record.\<close>

definition OwiAscii_get ::
  "(string \<Rightarrow> real option) \<Rightarrow> interp2d \<Rightarrow> OwiAscii \<Rightarrow> error + WindData" where
  "OwiAscii_get float_of interp self =
     and_then (read_prmsl float_of self) (\<lambda>prmsl.
     and_then (py_index (u10 self) (hbl_index (self_idx self))) (\<lambda>hbl_uvel.
     and_then (interp (u_lon self) (u_lat self) hbl_uvel
                 (lon1d (self_grid self)) (lat1d (self_grid self))) (\<lambda>u_interp.
     and_then (py_index (v10 self) (hbl_index (self_idx self))) (\<lambda>hbl_vvel.
     and_then (interp (u_lon self) (u_lat self) hbl_vvel
                 (lon1d (self_grid self)) (lat1d (self_grid self))) (\<lambda>v_interp.
     Inr \<lparr> date = self_date self, wind_grid = self_grid self, pressure = prmsl,
           u_velocity = u_interp, v_velocity = v_interp \<rparr>)))))"

section \<open>A decoder for plain decimal numbers\<close>

text \<open>
  \<open>float\<close> on the strings an OWI pressure file holds: blanks around an optional sign,
  digits and at most one decimal point, with a digit on at least one side of it. The
  value is the double nearest to the decimal. (\<open>float\<close> also reads exponents, \<open>inf\<close> and
  \<open>nan\<close>, which this decoder answers with \<open>None\<close>: the general results below hold for
  any decoder, and this one only serves to run the reader on files of plain decimals.)
\<close>

definition is_space :: "char \<Rightarrow> bool" where
  "is_space c = (c = CHR '' '' \<or> c = CHR 0x09 \<or> c = CHR 0x0A \<or> c = CHR 0x0B
                 \<or> c = CHR 0x0C \<or> c = CHR 0x0D)"

definition digit_of :: "char \<Rightarrow> nat option" where
  "digit_of c = map_of (zip ''0123456789'' [0, 1, 2, 3, 4, 5, 6, 7, 8, 9]) c"

fun digits_value :: "nat \<Rightarrow> string \<Rightarrow> nat option" where
  "digits_value acc [] = Some acc"
| "digits_value acc (c # cs) =
     (case digit_of c of None \<Rightarrow> None | Some d \<Rightarrow> digits_value (10 * acc + d) cs)"

definition strip :: "string \<Rightarrow> string" where
  "strip s = rev (dropWhile is_space (rev (dropWhile is_space s)))"

definition float_of_decimal :: "string \<Rightarrow> real option" where
  "float_of_decimal s =
     (let t = strip s;
          signed = (t \<noteq> [] \<and> (hd t = CHR ''-'' \<or> hd t = CHR ''+''));
          body = (if signed then tl t else t);
          ip = takeWhile (\<lambda>c. c \<noteq> CHR ''.'') body;
          fp = drop 1 (dropWhile (\<lambda>c. c \<noteq> CHR ''.'') body)
      in if ip @ fp = [] then None
         else case digits_value 0 (ip @ fp) of
                None \<Rightarrow> None
              | Some m \<Rightarrow>
                  Some (binary64 ((if signed \<and> hd t = CHR ''-'' then - 1 else 1)
                                  * real m / 10 ^ length fp)))"

section \<open>Spec-side notions\<close>

text \<open>A strictly monotonic axis, increasing or decreasing.\<close>

definition strictly_monotonic :: "real list \<Rightarrow> bool" where
  "strictly_monotonic xs = (sorted_wrt (<) xs \<or> sorted_wrt (>) xs)"



text \<open>The double arithmetic of \<open>numpy.arange\<close> on \<open>start\<close>, \<open>stop\<close>, \<open>step\<close> is exact:
  the span, the first two points, each multiple of the step and each point are doubles,
  and rounding the quotient does not change its ceiling.\<close>

definition exact_range :: "real \<Rightarrow> real \<Rightarrow> real \<Rightarrow> bool" where
  "exact_range start stop step =
     (binary64 (stop - start) = stop - start
      \<and> \<lceil>binary64 ((stop - start) / step)\<rceil> = \<lceil>(stop - start) / step\<rceil>
      \<and> (\<forall>k<nat \<lceil>(stop - start) / step\<rceil>.
            binary64 (real k * step) = real k * step
            \<and> binary64 (start + real k * step) = start + real k * step))"

text \<open>Every longitude a grid stores: the axis, the mesh and the two corners.\<close>

definition stored_longitudes :: "WindGrid \<Rightarrow> real list" where
  "stored_longitudes g = lon1d g @ concat (lon g) @ [xll g, xur g]"

text \<open>A grid of three by three points, a quarter of a degree apart, as \<open>WindGrid\<close>
  builds it from the axes 0, 0.25, 0.5 and 10, 10.25, 10.5.\<close>

definition quarter_degree_grid :: WindGrid where
  "quarter_degree_grid =
     \<lparr> n_longitude = 3, n_latitude = 3, d_longitude = 1 / 4, d_latitude = 1 / 4,
       xll = 0, yll = 10, xur = 1 / 2, yur = 21 / 2,
       lon = [[0, 1 / 4, 1 / 2], [0, 1 / 4, 1 / 2], [0, 1 / 4, 1 / 2]],
       lat = [[10, 10, 10], [41 / 4, 41 / 4, 41 / 4], [21 / 2, 21 / 2, 21 / 2]],
       lon1d = [0, 1 / 4, 1 / 2], lat1d = [10, 41 / 4, 21 / 2] \<rparr>"



text \<open>The text of value number \<open>k\<close> where its line exists, and the pressure array after
  \<open>m\<close> turns of the loop of \<open>get\<close> on a grid of \<open>R\<close> rows and \<open>C\<close> columns: the cells
  \<open>0 .. m - 1\<close>, counted row by row, hold their values and the others \<open>None\<close>.\<close>

definition data_text :: "string list \<Rightarrow> int \<Rightarrow> nat \<Rightarrow> string" where
  "data_text lines hdr k =
     py_slice (1 + 10 * (k mod 8)) (10 + 10 * (k mod 8)) (lines ! nat (hdr + 1 + int (k div 8)))"

definition filled :: "(nat \<Rightarrow> real option) \<Rightarrow> nat \<Rightarrow> nat \<Rightarrow> nat \<Rightarrow> field" where
  "filled val R C m =
     map (\<lambda>r. map (\<lambda>c. if r * C + c < m then val (r * C + c) else None) [0 ..< C]) [0 ..< R]"

text \<open>
  A pressure file for that grid with \<open>n\<close> records: the file header, then for each record
  its header line and two data lines (nine values, eight on the first line). And a time
  slice over it: the wind series has \<open>samples\<close> samples, sample \<open>i\<close> being a field of
  one cell that holds \<open>i\<close>.
\<close>

definition example_record :: "string list" where
  "example_record =
     [''iLat=   3iLong=   3DX=0.2500DY=0.2500SWLat=10.00000SWLon=0.000000DT=200001010000'',
      '' 1000.0000 1001.0000 1002.0000 1003.0000 1004.0000 1005.0000 1006.0000 1007.0000'',
      '' 1008.0000'']"

definition example_pre_file :: "nat \<Rightarrow> string list" where
  "example_pre_file n =
     ''Oceanweather WIN/PRE Format                            2000010100     2000010100''
       # concat (replicate n example_record)"

definition example_ascii :: "int \<Rightarrow> nat \<Rightarrow> OwiAscii" where
  "example_ascii idx samples =
     \<lparr> u_lon = [- 1, 1], u_lat = [9, 11],
       u10 = map (\<lambda>i. [[Some (real i)]]) [0 ..< samples],
       v10 = map (\<lambda>i. [[Some (- real i)]]) [0 ..< samples],
       pre_lines = example_pre_file 400,
       self_idx = idx, num_lats = 3, num_lons = 3,
       pre_idx_header_row = get_pre_idx_header_row 3 3 idx,
       self_date = 315532800,
       self_grid = quarter_degree_grid \<rparr>"

text \<open>A record whose first value fills all ten columns of its field, in a file of one
  record, and the time slice 0 over it.\<close>

definition wide_field_file :: "string list" where
  "wide_field_file =
     [''Oceanweather WIN/PRE Format                            2000010100     2000010100'',
      ''iLat=   3iLong=   3DX=0.2500DY=0.2500SWLat=10.00000SWLon=0.000000DT=200001010000'',
      ''-1000.0000 1001.0000 1002.0000 1003.0000 1004.0000 1005.0000 1006.0000 1007.0000'',
      '' 1008.0000'']"

definition wide_field_ascii :: OwiAscii where
  "wide_field_ascii = (example_ascii 0 1) \<lparr> pre_lines := wide_field_file \<rparr>"

text \<open>The same time slice over a file cut after the first data line.\<close>

definition truncated_ascii :: OwiAscii where
  "truncated_ascii = (example_ascii 0 1) \<lparr> pre_lines := take 3 (example_pre_file 1) \<rparr>"

section \<open>Basic facts\<close>

lemma and_then_Inr: "(and_then m f = Inr y) = (\<exists>x. m = Inr x \<and> f x = Inr y)"
  by (cases m) (simp_all add: and_then_def)


lemma and_then_simps:
  "and_then (Inr x) f = f x" "and_then (Inl e) f = Inl e"
  by (simp_all add: and_then_def)

lemma ceil_div8_eq: "ceil_div8 n = (n + 7) div 8"
proof -
  have "\<lceil>real_of_int n / 8\<rceil> = - \<lfloor>real_of_int (- n) / real_of_int 8\<rfloor>"
    by (simp add: ceiling_def)
  also have "\<dots> = - ((- n) div 8)"
    by (simp only: floor_divide_of_int_eq)
  also have "\<dots> = (n + 7) div 8"
    by presburger
  finally show ?thesis by (simp add: ceil_div8_def)
qed

section \<open>Rounding to doubles\<close>

lemma py_round_of_int: "py_round (of_int m) = m"
  by (simp add: py_round_def)

lemma py_round_error: "\<bar>real_of_int (py_round y) - y\<bar> \<le> 1 / 2"
proof -
  have "real_of_int \<lfloor>y\<rfloor> \<le> y" and "y < real_of_int \<lfloor>y\<rfloor> + 1" by linarith+
  then show ?thesis by (auto simp add: py_round_def)
qed

lemma py_round_tie: "y - real_of_int \<lfloor>y\<rfloor> = 1 / 2 \<Longrightarrow> even (py_round y)"
  by (simp add: py_round_def)

lemma binary64_exact:
  assumes x: "x = real_of_int m * 2 powr real_of_int k"
    and m: "\<bar>m\<bar> < 2 ^ 53" and k: "- 1074 \<le> k"
  shows "binary64 x = x"
proof (cases "m = 0")
  case True
  then show ?thesis using x by (simp add: binary64_def)
next
  case False
  then have x0: "x \<noteq> 0" using x by simp
  define e where "e = max \<lfloor>log 2 \<bar>x\<bar>\<rfloor> (- 1022)"
  have absx: "\<bar>x\<bar> = real_of_int \<bar>m\<bar> * 2 powr real_of_int k"
    using x by (simp add: abs_mult)
  have "real_of_int \<bar>m\<bar> < 2 ^ 53" using m by (metis of_int_less_numeral_power_cancel_iff)
  then have "real_of_int \<bar>m\<bar> < 2 powr 53" by (simp add: powr_numeral)
  then have "\<bar>x\<bar> < 2 powr 53 * 2 powr real_of_int k"
    unfolding absx by (intro mult_strict_right_mono) simp_all
  then have "\<bar>x\<bar> < 2 powr (53 + real_of_int k)" by (simp add: powr_add)
  then have "log 2 \<bar>x\<bar> < 53 + real_of_int k"
    using x0 by (simp add: log_less_iff)
  then have "log 2 \<bar>x\<bar> < real_of_int (53 + k)" by simp
  then have "\<lfloor>log 2 \<bar>x\<bar>\<rfloor> < 53 + k" by (simp only: floor_less_iff)
  then have ek: "e - 52 \<le> k" using k by (simp add: e_def)
  define d where "d = nat (k - (e - 52))"
  have dk: "real_of_int k = real d + (real_of_int e - 52)" using ek by (simp add: d_def)
  have scaled: "x / 2 powr (real_of_int e - 52) = real_of_int (m * 2 ^ d)"
  proof -
    have "2 powr real_of_int k = 2 powr real d * 2 powr (real_of_int e - 52)"
      unfolding dk by (simp add: powr_add)
    then have "x / 2 powr (real_of_int e - 52) = real_of_int m * 2 powr real d"
      using x by simp
    also have "2 powr real d = 2 ^ d" by (simp add: powr_realpow)
    finally show ?thesis by simp
  qed
  have "binary64 x = real_of_int (py_round (x / 2 powr (real_of_int e - 52)))
      * 2 powr (real_of_int e - 52)"
    using x0 by (simp add: binary64_def e_def)
  also have "\<dots> = real_of_int (m * 2 ^ d) * 2 powr (real_of_int e - 52)"
    unfolding scaled py_round_of_int ..
  also have "\<dots> = x / 2 powr (real_of_int e - 52) * 2 powr (real_of_int e - 52)"
    unfolding scaled ..
  also have "\<dots> = x" by simp
  finally show ?thesis .
qed

lemma binary64_int: "\<bar>m\<bar> < 2 ^ 53 \<Longrightarrow> binary64 (real_of_int m) = real_of_int m"
  using binary64_exact [of "real_of_int m" m 0] by simp

lemma binary64_dyadic:
  assumes "\<bar>m\<bar> < 2 ^ 53" and "n \<le> 1074"
  shows "binary64 (real_of_int m / 2 ^ n) = real_of_int m / 2 ^ n"
proof -
  have "real_of_int m / 2 ^ n = real_of_int m * 2 powr real_of_int (- int n)"
    by (simp add: powr_minus powr_realpow divide_inverse)
  then show ?thesis
    using binary64_exact [of "real_of_int m / 2 ^ n" m "- int n"] assms by simp
qed

lemma binary64_binade:
  assumes lo: "2 powr real_of_int e \<le> \<bar>x\<bar>" and hi: "\<bar>x\<bar> < 2 powr (real_of_int e + 1)"
    and e: "- 1022 \<le> e"
  shows "binary64 x = real_of_int (py_round (x / 2 powr (real_of_int e - 52)))
           * 2 powr (real_of_int e - 52)"
proof -
  have pos: "0 < \<bar>x\<bar>" using lo powr_gt_zero [of 2 "real_of_int e"] by linarith
  then have x0: "x \<noteq> 0" by simp
  have "\<lfloor>log 2 \<bar>x\<bar>\<rfloor> = e"
    using floor_log_eq_powr_iff [of "\<bar>x\<bar>" 2 e] pos lo hi by simp
  then show ?thesis using x0 e by (simp add: binary64_def)
qed

lemma binary64_from_1:
  assumes "2 ^ n \<le> \<bar>x\<bar>" and "\<bar>x\<bar> < 2 ^ Suc n" and "n \<le> 52"
  shows "binary64 x = real_of_int (py_round (x * 2 ^ (52 - n))) / 2 ^ (52 - n)"
proof -
  have pn: "2 powr real_of_int (int n) = (2::real) ^ n"
    by (simp add: powr_realpow)
  have a: "2 powr real_of_int (int n) \<le> \<bar>x\<bar>"
    using assms(1) by (simp only: pn)
  have "2 powr (real_of_int (int n) + 1) = 2 powr real_of_int (int n) * 2 powr 1"
    by (rule powr_add)
  then have "2 powr (real_of_int (int n) + 1) = (2::real) ^ Suc n"
    unfolding pn by simp
  then have b: "\<bar>x\<bar> < 2 powr (real_of_int (int n) + 1)"
    using assms(2) by (simp only:)
  have c: "- 1022 \<le> int n" by simp
  have q: "2 powr (real_of_int (int n) - 52) = 1 / 2 ^ (52 - n)"
  proof -
    have "real_of_int (int n) - 52 = - real (52 - n)" using assms(3) by simp
    then have "2 powr (real_of_int (int n) - 52) = 2 powr (- real (52 - n))"
      by (simp only:)
    also have "\<dots> = inverse (2 powr real (52 - n))" by (rule powr_minus)
    also have "\<dots> = inverse (2 ^ (52 - n))" by (simp only: powr_realpow zero_less_numeral)
    finally show ?thesis by (simp only: inverse_eq_divide)
  qed
  have "binary64 x = real_of_int (py_round (x / 2 powr (real_of_int (int n) - 52)))
           * 2 powr (real_of_int (int n) - 52)"
    by (rule binary64_binade [OF a b c])
  also have "\<dots> = real_of_int (py_round (x * 2 ^ (52 - n))) / 2 ^ (52 - n)"
    unfolding q by simp
  finally show ?thesis .
qed

lemma binary64_below_1:
  assumes "1 \<le> \<bar>x\<bar> * 2 ^ n" and "\<bar>x\<bar> * 2 ^ n < 2" and "n \<le> 1022"
  shows "binary64 x = real_of_int (py_round (x * 2 ^ (52 + n))) / 2 ^ (52 + n)"
proof -
  have p: "2 powr real_of_int (- int n) = 1 / 2 ^ n"
  proof -
    have "real_of_int (- int n) = - real n" by simp
    then have "2 powr real_of_int (- int n) = 2 powr (- real n)" by (simp only:)
    also have "\<dots> = inverse (2 powr real n)" by (rule powr_minus)
    also have "\<dots> = inverse (2 ^ n)" by (simp only: powr_realpow zero_less_numeral)
    finally show ?thesis by (simp only: inverse_eq_divide)
  qed
  have "1 / 2 ^ n \<le> \<bar>x\<bar>"
    using assms(1) by (simp add: pos_divide_le_eq)
  then have a: "2 powr real_of_int (- int n) \<le> \<bar>x\<bar>"
    by (simp only: p)
  have "2 powr (real_of_int (- int n) + 1) = 2 powr real_of_int (- int n) * 2 powr 1"
    by (rule powr_add)
  then have "2 powr (real_of_int (- int n) + 1) = 2 / 2 ^ n"
    unfolding p by simp
  moreover have "\<bar>x\<bar> < 2 / 2 ^ n"
    using assms(2) by (simp add: pos_less_divide_eq)
  ultimately have b: "\<bar>x\<bar> < 2 powr (real_of_int (- int n) + 1)"
    by (simp only:)
  have c: "- 1022 \<le> - int n" using assms(3) by simp
  have q: "2 powr (real_of_int (- int n) - 52) = 1 / 2 ^ (52 + n)"
  proof -
    have "real_of_int (- int n) - 52 = - real (52 + n)" by simp
    then have "2 powr (real_of_int (- int n) - 52) = 2 powr (- real (52 + n))"
      by (simp only:)
    also have "\<dots> = inverse (2 powr real (52 + n))" by (rule powr_minus)
    also have "\<dots> = inverse (2 ^ (52 + n))" by (simp only: powr_realpow zero_less_numeral)
    finally show ?thesis by (simp only: inverse_eq_divide)
  qed
  have "binary64 x = real_of_int (py_round (x / 2 powr (real_of_int (- int n) - 52)))
           * 2 powr (real_of_int (- int n) - 52)"
    by (rule binary64_binade [OF a b c])
  also have "\<dots> = real_of_int (py_round (x * 2 ^ (52 + n))) / 2 ^ (52 + n)"
    unfolding q by simp
  finally show ?thesis .
qed

lemma binary64_error:
  assumes "2 powr (- 1022) \<le> \<bar>x\<bar>"
  shows "\<bar>binary64 x - x\<bar> \<le> \<bar>x\<bar> / 2 ^ 53"
proof -
  have pos: "0 < \<bar>x\<bar>" using assms powr_gt_zero [of 2 "- 1022"] by linarith
  then have x0: "x \<noteq> 0" by simp
  define e where "e = \<lfloor>log 2 \<bar>x\<bar>\<rfloor>"
  have "- 1022 \<le> log 2 \<bar>x\<bar>" using assms pos by (simp add: le_log_iff)
  then have "real_of_int (- 1022) \<le> log 2 \<bar>x\<bar>" by simp
  then have e: "- 1022 \<le> e" unfolding e_def by (simp only: le_floor_iff)
  have "real_of_int e \<le> log 2 \<bar>x\<bar>" unfolding e_def by simp
  then have lo: "2 powr real_of_int e \<le> \<bar>x\<bar>" using pos by (simp add: powr_le_iff)
  define q where "q = 2 powr (real_of_int e - 52)"
  have q0: "0 < q" by (simp add: q_def)
  have "2 powr (real_of_int e - 52) = 2 powr real_of_int e / 2 powr 52"
    by (rule powr_diff)
  then have q2: "q = 2 powr real_of_int e / 2 ^ 52"
    by (simp add: q_def)
  have b: "binary64 x = real_of_int (py_round (x / q)) * q"
    using x0 e by (simp add: binary64_def e_def q_def)
  have xq: "x / q * q = x" using q0 by simp
  have "(real_of_int (py_round (x / q)) - x / q) * q
      = real_of_int (py_round (x / q)) * q - x / q * q"
    by (rule left_diff_distrib)
  then have d: "binary64 x - x = (real_of_int (py_round (x / q)) - x / q) * q"
    by (simp only: b xq)
  have "\<bar>binary64 x - x\<bar> = \<bar>real_of_int (py_round (x / q)) - x / q\<bar> * \<bar>q\<bar>"
    by (simp only: d abs_mult)
  also have "\<dots> = \<bar>real_of_int (py_round (x / q)) - x / q\<bar> * q"
    using q0 by (simp only: abs_of_pos)
  also have "\<dots> \<le> 1 / 2 * q"
    using py_round_error [of "x / q"] q0 by (intro mult_right_mono) simp_all
  also have "\<dots> \<le> 1 / 2 * (\<bar>x\<bar> / 2 ^ 52)"
  proof -
    have "q \<le> \<bar>x\<bar> / 2 ^ 52" unfolding q2 using lo by (intro divide_right_mono) simp_all
    then show ?thesis by simp
  qed
  also have "\<dots> = \<bar>x\<bar> / 2 ^ 53" by simp
  finally show ?thesis .
qed

lemma binary64_numeral:
  "(numeral w :: int) < 2 ^ 53 \<Longrightarrow> binary64 (numeral w) = numeral w"
  using binary64_int [of "numeral w"] by simp

lemma binary64_neg_numeral:
  "(numeral w :: int) < 2 ^ 53 \<Longrightarrow> binary64 (- numeral w) = - numeral w"
  using binary64_int [of "- numeral w"] by simp

lemma binary64_0: "binary64 0 = 0"
  by (simp add: binary64_def)

lemma binary64_1: "binary64 1 = 1"
  using binary64_int [of 1] by simp

lemma binary64_quarters:
  assumes "\<bar>j\<bar> < 2 ^ 53"
  shows "binary64 (real_of_int j / 4) = real_of_int j / 4"
  using binary64_dyadic [of j 2] assms by simp

lemma np_round2_quarters:
  assumes "\<bar>j\<bar> < 2 ^ 40"
  shows "np_round2 (real_of_int j / 4) = real_of_int j / 4"
proof -
  have j25: "\<bar>25 * j\<bar> < 2 ^ 53" using assms by simp
  have j53: "\<bar>j\<bar> < 2 ^ 53" using assms by simp
  have "real_of_int j / 4 * 100 = real_of_int (25 * j)" by simp
  then have "binary64 (real_of_int j / 4 * 100) = real_of_int (25 * j)"
    using binary64_int [OF j25] by (simp only:)
  then have "np_round2 (real_of_int j / 4) = binary64 (real_of_int (25 * j) / 100)"
    by (simp only: np_round2_def py_round_of_int)
  also have "real_of_int (25 * j) / 100 = real_of_int j / 4" by simp
  finally show ?thesis using binary64_quarters [OF j53] by (simp only:)
qed

lemma np_round2_of_quarter_difference:
  assumes "b - a = real_of_int j / 4" and "\<bar>j\<bar> < 2 ^ 40"
  shows "np_round2 (binary64 (b - a)) = b - a"
proof -
  have "\<bar>j\<bar> < 2 ^ 53" using assms(2) by simp
  then have "binary64 (b - a) = b - a"
    unfolding assms(1) by (rule binary64_quarters)
  then show ?thesis
    using np_round2_quarters [OF assms(2)] assms(1) by (simp only:)
qed

lemma tiny_below_hundredth: "2 powr (- 1022) \<le> (1 / 100 :: real)"
proof -
  have "(2::real) powr (- 1022) \<le> 2 powr (- 7)" by (rule powr_mono) simp_all
  also have "(2::real) powr (- 7) = 1 / 2 ^ 7"
    by (simp add: powr_minus_divide powr_numeral)
  also have "\<dots> \<le> 1 / 100" by simp
  finally show ?thesis .
qed

lemma np_round2_hundredths:
  "\<exists>m. np_round2 x = binary64 (real_of_int m / 100)
      \<and> \<bar>real_of_int m - binary64 (x * 100)\<bar> \<le> 1 / 2
      \<and> (binary64 (x * 100) - real_of_int \<lfloor>binary64 (x * 100)\<rfloor> = 1 / 2 \<longrightarrow> even m)
      \<and> \<bar>np_round2 x - real_of_int m / 100\<bar> \<le> \<bar>real_of_int m / 100\<bar> / 2 ^ 53"
proof -
  define m where "m = py_round (binary64 (x * 100))"
  have r: "np_round2 x = binary64 (real_of_int m / 100)"
    by (simp only: np_round2_def m_def)
  have near: "\<bar>real_of_int m - binary64 (x * 100)\<bar> \<le> 1 / 2"
    unfolding m_def by (rule py_round_error)
  have tie: "binary64 (x * 100) - real_of_int \<lfloor>binary64 (x * 100)\<rfloor> = 1 / 2 \<longrightarrow> even m"
    unfolding m_def using py_round_tie by blast
  have err: "\<bar>np_round2 x - real_of_int m / 100\<bar> \<le> \<bar>real_of_int m / 100\<bar> / 2 ^ 53"
  proof (cases "m = 0")
    case True
    then show ?thesis by (simp add: r binary64_0)
  next
    case False
    then have "1 \<le> \<bar>m\<bar>" by linarith
    then have "1 \<le> \<bar>real_of_int m\<bar>" by (metis of_int_1_le_iff of_int_abs)
    then have "1 / 100 \<le> \<bar>real_of_int m / 100\<bar>" by simp
    then have "2 powr (- 1022) \<le> \<bar>real_of_int m / 100\<bar>"
      using tiny_below_hundredth by linarith
    then show ?thesis unfolding r by (rule binary64_error)
  qed
  show ?thesis using r near tie err by blast
qed

section \<open>The header line of a record\<close>

text \<open>
  C2. The header of record \<open>i\<close> is line \<open>1 + i * (ceil(n_lat * n_lon / 8) + 1)\<close> of the
  pressure file, counted from 0. A 10 by 10 grid has 13 data lines per record; its record 0
  starts at line 1 and its record 1 at line 15.
\<close>

theorem header_row_formula:
  "get_pre_idx_header_row n_lat n_lon i = 1 + i * (\<lceil>real_of_int (n_lat * n_lon) / 8\<rceil> + 1)
   \<and> \<lceil>real_of_int (10 * 10) / 8\<rceil> = (13::int)
   \<and> get_pre_idx_header_row 10 10 0 = 1
   \<and> get_pre_idx_header_row 10 10 1 = 15"
proof -
  have general: "get_pre_idx_header_row n_lat n_lon i
      = 1 + i * (\<lceil>real_of_int (n_lat * n_lon) / 8\<rceil> + 1)"
    unfolding get_pre_idx_header_row_def ceil_div8_def by (simp only: algebra_simps)
  have lines13: "\<lceil>real_of_int (10 * 10) / 8\<rceil> = (13::int)"
    using ceil_div8_eq [of "10 * 10"] by (simp add: ceil_div8_def)
  have "get_pre_idx_header_row 10 10 0 = 1"
    by (simp add: get_pre_idx_header_row_def)
  moreover have "get_pre_idx_header_row 10 10 1 = 15"
    by (simp add: get_pre_idx_header_row_def ceil_div8_eq)
  ultimately show ?thesis using general lines13 by blast
qed

section \<open>Constructing a grid\<close>

lemma WindGrid_init_fields:
  assumes "WindGrid_init lons lats = Inr g"
  shows "2 \<le> length lons" and "2 \<le> length lats"
    and "n_longitude g = length lons" and "n_latitude g = length lats"
    and "d_longitude g = np_round2 (binary64 (lons ! 1 - lons ! 0))"
    and "d_latitude g = np_round2 (binary64 (lats ! 1 - lats ! 0))"
    and "lon1d g = map wrap_longitude lons" and "lat1d g = lats"
    and "lon g = replicate (length lats) (map wrap_longitude lons)"
    and "xll g = Min (set (map wrap_longitude lons))"
    and "xur g = Max (set (map wrap_longitude lons))"
  using assms by (auto simp add: WindGrid_init_def split: if_splits)

lemma np_round2_int:
  assumes "\<bar>m\<bar> < 2 ^ 38"
  shows "np_round2 (real_of_int m) = real_of_int m"
proof -
  have "\<bar>4 * m\<bar> = 4 * \<bar>m\<bar>" by (simp add: abs_mult)
  moreover have "(2::int) ^ 40 = 4 * 2 ^ 38" by simp
  ultimately have "\<bar>4 * m\<bar> < 2 ^ 40" using assms by linarith
  then have "np_round2 (real_of_int (4 * m) / 4) = real_of_int (4 * m) / 4"
    by (rule np_round2_quarters)
  then show ?thesis by simp
qed

lemma np_round2_numeral:
  "(numeral w :: int) < 2 ^ 38 \<Longrightarrow> np_round2 (numeral w) = numeral w"
  using np_round2_int [of "numeral w"] by simp

lemma np_round2_neg_numeral:
  "(numeral w :: int) < 2 ^ 38 \<Longrightarrow> np_round2 (- numeral w) = - numeral w"
  using np_round2_int [of "- numeral w"] by simp

lemma np_round2_1: "np_round2 1 = 1"
  using np_round2_quarters [of 4] by simp

lemma np_round2_quarter: "np_round2 (1 / 4) = 1 / 4"
  using np_round2_quarters [of 1] by simp

lemma binary64_quarter: "binary64 (1 / 4) = 1 / 4"
  using binary64_quarters [of 1] by simp

lemma binary64_sixteenth: "binary64 (1 / 16) = 1 / 16"
  using binary64_dyadic [of 1 4] by simp

lemma binary64_six_hundredths:
  "binary64 (6 / 100) = 1080863910568919 / 18014398509481984"
proof -
  have "binary64 (6 / 100) = real_of_int (py_round (6 / 100 * 2 ^ (52 + 5))) / 2 ^ (52 + 5)"
    by (rule binary64_below_1) simp_all
  also have "\<dots> = 1080863910568919 / 18014398509481984" by (simp add: py_round_def)
  finally show ?thesis .
qed

lemma np_round2_sixteenth: "np_round2 (1 / 16) = 1080863910568919 / 18014398509481984"
proof -
  have "binary64 (1 / 16 * 100) = 25 / 4"
    using binary64_quarters [of 25] by simp
  moreover have "py_round (25 / 4) = 6" by (simp add: py_round_def)
  ultimately have "np_round2 (1 / 16) = binary64 (real_of_int 6 / 100)"
    by (simp only: np_round2_def)
  then show ?thesis using binary64_six_hundredths by simp
qed

lemmas round_examples =
  binary64_numeral binary64_neg_numeral binary64_1 binary64_0 binary64_quarter
  binary64_sixteenth np_round2_numeral np_round2_neg_numeral np_round2_1 np_round2_quarter
  np_round2_sixteenth

lemma grid_of_3_1_2:
  "WindGrid_init [3, 1, 2] [0, 1] =
     Inr \<lparr> n_longitude = 3, n_latitude = 2, d_longitude = - 2, d_latitude = 1,
           xll = 1, yll = 0, xur = 3, yur = 1,
           lon = [[3, 1, 2], [3, 1, 2]], lat = [[0, 0, 0], [1, 1, 1]],
           lon1d = [3, 1, 2], lat1d = [0, 1] \<rparr>"
  by (simp add: WindGrid_init_def wrap_longitude_def round_examples
      numeral_2_eq_2 numeral_3_eq_3)

lemma grid_of_180_181:
  "WindGrid_init [180, 181] [0, 1] =
     Inr \<lparr> n_longitude = 2, n_latitude = 2, d_longitude = 1, d_latitude = 1,
           xll = - 179, yll = 0, xur = 180, yur = 1,
           lon = [[180, - 179], [180, - 179]], lat = [[0, 0], [1, 1]],
           lon1d = [180, - 179], lat1d = [0, 1] \<rparr>"
  by (simp add: WindGrid_init_def wrap_longitude_def round_examples
      numeral_2_eq_2)

lemma grid_of_sixteenth:
  "WindGrid_init [0, 1 / 16] [0, 1] =
     Inr \<lparr> n_longitude = 2, n_latitude = 2,
           d_longitude = 1080863910568919 / 18014398509481984, d_latitude = 1,
           xll = 0, yll = 0, xur = 1 / 16, yur = 1,
           lon = [[0, 1 / 16], [0, 1 / 16]], lat = [[0, 0], [1, 1]],
           lon1d = [0, 1 / 16], lat1d = [0, 1] \<rparr>"
  by (simp add: WindGrid_init_def wrap_longitude_def round_examples
      numeral_2_eq_2)

lemma grid_of_quarter:
  "WindGrid_init [0, 1 / 4] [0, 1] =
     Inr \<lparr> n_longitude = 2, n_latitude = 2, d_longitude = 1 / 4, d_latitude = 1,
           xll = 0, yll = 0, xur = 1 / 4, yur = 1,
           lon = [[0, 1 / 4], [0, 1 / 4]], lat = [[0, 0], [1, 1]],
           lon1d = [0, 1 / 4], lat1d = [0, 1] \<rparr>"
  by (simp add: WindGrid_init_def wrap_longitude_def round_examples
      numeral_2_eq_2)

text \<open>
  C4, as the claim states it, asks the constructor to refuse an axis that is not strictly
  monotonic. It accepts one: the longitudes 3, 1, 2 give a grid.
\<close>

theorem WindGrid_init_accepts_unordered_axis:
  "\<not> strictly_monotonic [3, 1, 2]
   \<and> WindGrid_init [3, 1, 2] [0, 1] =
       Inr \<lparr> n_longitude = 3, n_latitude = 2, d_longitude = - 2, d_latitude = 1,
             xll = 1, yll = 0, xur = 3, yur = 1,
             lon = [[3, 1, 2], [3, 1, 2]], lat = [[0, 0, 0], [1, 1, 1]],
             lon1d = [3, 1, 2], lat1d = [0, 1] \<rparr>"
  using grid_of_3_1_2 by (simp add: strictly_monotonic_def)

text \<open>
  C4, amended. The constructor fails exactly when an axis has fewer than two points, and
  the failure is the IndexError of \<open>lon[1]\<close> or \<open>lat[1]\<close>; on all other axes, ordered or
  not, it returns a grid.
\<close>

theorem WindGrid_init_fails_iff_short_axis:
  "(WindGrid_init lons lats = Inl IndexError) = (length lons < 2 \<or> length lats < 2)
   \<and> ((\<exists>g. WindGrid_init lons lats = Inr g) = (2 \<le> length lons \<and> 2 \<le> length lats))"
  by (auto simp add: WindGrid_init_def)

theorem WindGrid_init_fails_iff_short_axis_witness:
  "WindGrid_init [5] [0, 1] = Inl IndexError \<and> (\<exists>g. WindGrid_init [3, 1, 2] [0, 1] = Inr g)"
proof -
  have "length [5::real] < 2 \<or> length [0, 1::real] < 2" by simp
  then have a: "WindGrid_init [5] [0, 1] = Inl IndexError"
    using WindGrid_init_fails_iff_short_axis [of "[5]" "[0, 1]"] by blast
  have "2 \<le> length [3, 1, 2::real] \<and> 2 \<le> length [0, 1::real]" by simp
  then have b: "\<exists>g. WindGrid_init [3, 1, 2] [0, 1] = Inr g"
    using WindGrid_init_fails_iff_short_axis [of "[3, 1, 2]" "[0, 1]"] by blast
  show ?thesis using a b by blast
qed

subsection \<open>Longitudes\<close>

lemma wrap_longitude_range:
  "- 180 \<le> x \<Longrightarrow> x < 540 \<Longrightarrow> - 180 \<le> wrap_longitude x \<and> wrap_longitude x \<le> 180"
  by (simp add: wrap_longitude_def)

lemma wrap_longitude_strict:
  "x < 540 \<Longrightarrow> x \<noteq> 180 \<Longrightarrow> wrap_longitude x < 180"
  by (simp add: wrap_longitude_def)

lemma wrap_longitude_id: "x \<le> 180 \<Longrightarrow> wrap_longitude x = x"
  by (simp add: wrap_longitude_def)

lemma stored_longitudes_set:
  assumes "WindGrid_init lons lats = Inr g"
  shows "set (stored_longitudes g) = wrap_longitude ` set lons"
proof -
  note f = WindGrid_init_fields [OF assms]
  from f(1,2) have ne: "lons \<noteq> []" "lats \<noteq> []" by auto
  have fin: "finite (set (map wrap_longitude lons))"
    and nonempty: "set (map wrap_longitude lons) \<noteq> {}"
    using ne by auto
  have mn: "Min (set (map wrap_longitude lons)) \<in> set (map wrap_longitude lons)"
    using Min_in [OF fin nonempty] .
  have mx: "Max (set (map wrap_longitude lons)) \<in> set (map wrap_longitude lons)"
    using Max_in [OF fin nonempty] .
  have "set (concat (lon g)) = wrap_longitude ` set lons"
    using ne by (auto simp add: f(9))
  then show ?thesis
    using mn mx by (auto simp add: stored_longitudes_def f(7,10,11))
qed

text \<open>
  C5, as the claim states it, puts every stored longitude in the half-open interval from
  -180 to 180. An input of exactly 180 is stored as 180: only values above 180 are
  shifted.
\<close>

theorem stored_longitude_180_counterexample:
  "WindGrid_init [180, 181] [0, 1] =
     Inr \<lparr> n_longitude = 2, n_latitude = 2, d_longitude = 1, d_latitude = 1,
           xll = - 179, yll = 0, xur = 180, yur = 1,
           lon = [[180, - 179], [180, - 179]], lat = [[0, 0], [1, 1]],
           lon1d = [180, - 179], lat1d = [0, 1] \<rparr>
   \<and> \<not> list_all (\<lambda>v. - 180 \<le> v \<and> v < 180)
         (stored_longitudes
            \<lparr> n_longitude = 2, n_latitude = 2, d_longitude = 1, d_latitude = 1,
              xll = - 179, yll = 0, xur = 180, yur = 1,
              lon = [[180, - 179], [180, - 179]], lat = [[0, 0], [1, 1]],
              lon1d = [180, - 179], lat1d = [0, 1] \<rparr>)"
  using grid_of_180_181 by (simp add: stored_longitudes_def)

text \<open>
  C5, amended. The stored axis is the input axis with 360 subtracted from each value
  above 180. For an input axis with values from -180 up to, but not including, 540, every
  stored longitude (axis, mesh, corners \<open>xll\<close> and \<open>xur\<close>) lies in the closed interval
  from -180 to 180, and below 180 when no input value is 180.
\<close>

theorem stored_longitudes_range:
  assumes "WindGrid_init lons lats = Inr g"
    and "\<forall>x\<in>set lons. - 180 \<le> x \<and> x < 540"
  shows "lon1d g = map wrap_longitude lons
     \<and> (\<forall>v\<in>set (stored_longitudes g). - 180 \<le> v \<and> v \<le> 180)
     \<and> (180 \<notin> set lons \<longrightarrow> (\<forall>v\<in>set (stored_longitudes g). v < 180))"
proof -
  have s: "set (stored_longitudes g) = wrap_longitude ` set lons"
    using stored_longitudes_set [OF assms(1)] .
  have a: "lon1d g = map wrap_longitude lons"
    using WindGrid_init_fields(7) [OF assms(1)] .
  have b: "\<forall>v\<in>set (stored_longitudes g). - 180 \<le> v \<and> v \<le> 180"
    unfolding s using assms(2) wrap_longitude_range by blast
  have c: "180 \<notin> set lons \<longrightarrow> (\<forall>v\<in>set (stored_longitudes g). v < 180)"
    unfolding s using assms(2) wrap_longitude_strict by blast
  show ?thesis using a b c by blast
qed

theorem stored_longitudes_range_witness:
  "\<exists>g. WindGrid_init [180, 181] [0, 1] = Inr g
     \<and> lon1d g = [180, - 179]
     \<and> list_all (\<lambda>v. - 180 \<le> v \<and> v \<le> 180) (stored_longitudes g)"
proof -
  obtain g where g: "WindGrid_init [180, 181] [0, 1] = Inr g"
    using grid_of_180_181 by blast
  have h: "\<forall>x\<in>set [180, 181 :: real]. - 180 \<le> x \<and> x < 540" by simp
  have "lon1d g = map wrap_longitude [180, 181]
      \<and> (\<forall>v\<in>set (stored_longitudes g). - 180 \<le> v \<and> v \<le> 180)"
    using stored_longitudes_range [OF g h] by blast
  then have "lon1d g = [180, - 179]
      \<and> list_all (\<lambda>v. - 180 \<le> v \<and> v \<le> 180) (stored_longitudes g)"
    by (simp add: list_all_iff wrap_longitude_def)
  then show ?thesis using g by blast
qed

subsection \<open>Counts and steps\<close>

text \<open>
  C7, as the claim states it, makes the derived step the first successive difference of
  the axis. The step is that difference rounded to two decimals: the axis 0, 0.0625 has
  the step 0.06, stored as the double nearest to 0.06.
\<close>

theorem step_is_rounded_counterexample:
  "WindGrid_init [0, 1 / 16] [0, 1] =
     Inr \<lparr> n_longitude = 2, n_latitude = 2,
           d_longitude = 1080863910568919 / 18014398509481984, d_latitude = 1,
           xll = 0, yll = 0, xur = 1 / 16, yur = 1,
           lon = [[0, 1 / 16], [0, 1 / 16]], lat = [[0, 0], [1, 1]],
           lon1d = [0, 1 / 16], lat1d = [0, 1] \<rparr>
   \<and> (1080863910568919 / 18014398509481984 :: real) \<noteq> [0, 1 / 16] ! 1 - [0, 1 / 16] ! 0"
  using grid_of_sixteenth by simp

text \<open>
  C7, amended. For every pair of axes the constructor accepts, the derived point counts
  are the lengths of the input axes. Each derived step is numpy's \<open>round(d, 2)\<close> of the
  first successive difference \<open>d\<close> of its axis, computed in doubles: there is an integer
  \<open>m\<close>, the nearest to the double product \<open>d * 100\<close> (within one half, even at a tie),
  and the step is the double nearest to \<open>m / 100\<close>. The step is the difference itself
  when the difference is a multiple of one quarter (below \<open>2^38\<close>).
\<close>

theorem WindGrid_init_round_trip:
  assumes "WindGrid_init lons lats = Inr g"
  shows "n_longitude g = length lons \<and> n_latitude g = length lats
     \<and> (\<exists>m. d_longitude g = binary64 (real_of_int m / 100)
            \<and> \<bar>real_of_int m - binary64 (binary64 (lons ! 1 - lons ! 0) * 100)\<bar> \<le> 1 / 2
            \<and> (binary64 (binary64 (lons ! 1 - lons ! 0) * 100)
                  - real_of_int \<lfloor>binary64 (binary64 (lons ! 1 - lons ! 0) * 100)\<rfloor> = 1 / 2
                \<longrightarrow> even m)
            \<and> \<bar>d_longitude g - real_of_int m / 100\<bar> \<le> \<bar>real_of_int m / 100\<bar> / 2 ^ 53)
     \<and> (\<exists>m. d_latitude g = binary64 (real_of_int m / 100)
            \<and> \<bar>real_of_int m - binary64 (binary64 (lats ! 1 - lats ! 0) * 100)\<bar> \<le> 1 / 2
            \<and> (binary64 (binary64 (lats ! 1 - lats ! 0) * 100)
                  - real_of_int \<lfloor>binary64 (binary64 (lats ! 1 - lats ! 0) * 100)\<rfloor> = 1 / 2
                \<longrightarrow> even m)
            \<and> \<bar>d_latitude g - real_of_int m / 100\<bar> \<le> \<bar>real_of_int m / 100\<bar> / 2 ^ 53)
     \<and> (lons ! 1 - lons ! 0 = real_of_int i / 4 \<and> \<bar>i\<bar> < 2 ^ 40
          \<longrightarrow> d_longitude g = lons ! 1 - lons ! 0)
     \<and> (lats ! 1 - lats ! 0 = real_of_int j / 4 \<and> \<bar>j\<bar> < 2 ^ 40
          \<longrightarrow> d_latitude g = lats ! 1 - lats ! 0)"
proof -
  note f = WindGrid_init_fields [OF assms]
  have dx: "\<exists>m. d_longitude g = binary64 (real_of_int m / 100)
            \<and> \<bar>real_of_int m - binary64 (binary64 (lons ! 1 - lons ! 0) * 100)\<bar> \<le> 1 / 2
            \<and> (binary64 (binary64 (lons ! 1 - lons ! 0) * 100)
                  - real_of_int \<lfloor>binary64 (binary64 (lons ! 1 - lons ! 0) * 100)\<rfloor> = 1 / 2
                \<longrightarrow> even m)
            \<and> \<bar>d_longitude g - real_of_int m / 100\<bar> \<le> \<bar>real_of_int m / 100\<bar> / 2 ^ 53"
    unfolding f(5) by (rule np_round2_hundredths)
  have dy: "\<exists>m. d_latitude g = binary64 (real_of_int m / 100)
            \<and> \<bar>real_of_int m - binary64 (binary64 (lats ! 1 - lats ! 0) * 100)\<bar> \<le> 1 / 2
            \<and> (binary64 (binary64 (lats ! 1 - lats ! 0) * 100)
                  - real_of_int \<lfloor>binary64 (binary64 (lats ! 1 - lats ! 0) * 100)\<rfloor> = 1 / 2
                \<longrightarrow> even m)
            \<and> \<bar>d_latitude g - real_of_int m / 100\<bar> \<le> \<bar>real_of_int m / 100\<bar> / 2 ^ 53"
    unfolding f(6) by (rule np_round2_hundredths)
  have ex: "lons ! 1 - lons ! 0 = real_of_int i / 4 \<and> \<bar>i\<bar> < 2 ^ 40
          \<longrightarrow> d_longitude g = lons ! 1 - lons ! 0"
    unfolding f(5) using np_round2_of_quarter_difference by blast
  have ey: "lats ! 1 - lats ! 0 = real_of_int j / 4 \<and> \<bar>j\<bar> < 2 ^ 40
          \<longrightarrow> d_latitude g = lats ! 1 - lats ! 0"
    unfolding f(6) using np_round2_of_quarter_difference by blast
  show ?thesis using f(3,4) dx dy ex ey by blast
qed

theorem WindGrid_init_round_trip_witness:
  "\<exists>g. WindGrid_init [0, 1 / 4] [0, 1] = Inr g
     \<and> n_longitude g = 2 \<and> n_latitude g = 2 \<and> d_longitude g = 1 / 4 \<and> d_latitude g = 1"
proof -
  obtain g where g: "WindGrid_init [0, 1 / 4] [0, 1] = Inr g"
    using grid_of_quarter by blast
  have "n_longitude g = 2 \<and> n_latitude g = 2 \<and> d_longitude g = 1 / 4 \<and> d_latitude g = 1"
    using WindGrid_init_round_trip [OF g, of 1 4] by simp
  then show ?thesis using g by blast
qed

section \<open>Asking for an equidistant grid\<close>

text \<open>
  C9. With no source grid, a call in which one of the six numbers is 0 raises the
  RuntimeError "No valid function call provided": the test \<open>xll and yll and ...\<close> takes
  0 for an argument that was not given.
\<close>

theorem zero_parameter_raises:
  "pxll = Some 0 \<or> pyll = Some 0 \<or> pxur = Some 0 \<or> pyur = Some 0 \<or> pdx = Some 0 \<or> pdy = Some 0
   \<Longrightarrow> generate_equidistant_grid None pxll pyll pxur pyur pdx pdy = Inl RuntimeError"
  by (auto simp add: generate_equidistant_grid_def truthy_def)

theorem zero_parameter_raises_witness:
  "generate_equidistant_grid None (Some (- 80)) (Some 0) (Some (- 70)) (Some 10)
     (Some (1 / 4)) (Some (1 / 4)) = Inl RuntimeError"
  using zero_parameter_raises
    [of "Some (- 80)" "Some 0" "Some (- 70)" "Some 10" "Some (1 / 4)" "Some (1 / 4)"]
  by simp

section \<open>The half-open range of an equidistant grid\<close>

lemma below_ceiling: "k < nat \<lceil>q\<rceil> \<Longrightarrow> real k < q"
proof -
  assume "k < nat \<lceil>q\<rceil>"
  then have "int k < \<lceil>q\<rceil>" by linarith
  then have "real_of_int (int k) < q" by (simp only: less_ceiling_iff)
  then show ?thesis by simp
qed

lemma arange_point_exact:
  assumes ex: "exact_range start stop step" and k: "k < nat \<lceil>(stop - start) / step\<rceil>"
  shows "arange_point start step k = start + real k * step"
proof -
  note e = ex [unfolded exact_range_def]
  have at: "\<And>j. j < nat \<lceil>(stop - start) / step\<rceil> \<Longrightarrow>
      binary64 (real j * step) = real j * step
      \<and> binary64 (start + real j * step) = start + real j * step"
    using e by blast
  show ?thesis
  proof (cases "k = 0")
    case True
    then show ?thesis by (simp add: arange_point_def)
  next
    case False
    then have one: "1 < nat \<lceil>(stop - start) / step\<rceil> \<or> k = 1" using k by linarith
    have "1 < nat \<lceil>(stop - start) / step\<rceil>" using one k by auto
    then have s1: "binary64 step = step" and p1: "binary64 (start + step) = start + step"
      using at [of 1] by simp_all
    show ?thesis
    proof (cases "k = 1")
      case True
      then show ?thesis using p1 by (simp add: arange_point_def)
    next
      case False
      have d: "binary64 (binary64 (start + step) - start) = step"
        using p1 s1 by simp
      have "arange_point start step k
          = binary64 (start + binary64 (real k * binary64 (binary64 (start + step) - start)))"
        using False \<open>k \<noteq> 0\<close> by (simp add: arange_point_def)
      also have "\<dots> = binary64 (start + binary64 (real k * step))" using d by (simp only:)
      also have "\<dots> = start + real k * step" using at [OF k] by simp
      finally show ?thesis .
    qed
  qed
qed

lemma arange_exact:
  assumes "exact_range start stop step" and "step \<noteq> 0"
  shows "arange e start stop step
     = Inr (map (\<lambda>k. start + real k * step) [0 ..< nat \<lceil>(stop - start) / step\<rceil>])"
proof -
  note ex = assms(1) [unfolded exact_range_def]
  have "binary64 (binary64 (stop - start) / step) = binary64 ((stop - start) / step)"
    using ex by simp
  then have n: "nat \<lceil>binary64 (binary64 (stop - start) / step)\<rceil>
      = nat \<lceil>(stop - start) / step\<rceil>"
    using ex by simp
  have "map (arange_point start step) [0 ..< nat \<lceil>(stop - start) / step\<rceil>]
      = map (\<lambda>k. start + real k * step) [0 ..< nat \<lceil>(stop - start) / step\<rceil>]"
    using arange_point_exact [OF assms(1)] by (intro map_cong) simp_all
  then show ?thesis using assms(2) n by (simp add: arange_def)
qed

lemma arange_points:
  assumes "0 < step" and "exact_range lower upper step"
    and "arange e lower upper step = Inr cs"
  shows "length cs = nat \<lceil>(upper - lower) / step\<rceil>"
    and "cs = map (\<lambda>k. lower + real k * step) [0 ..< length cs]"
    and "\<forall>c\<in>set cs. lower \<le> c \<and> c < upper"
proof -
  have "step \<noteq> 0" using assms(1) by simp
  then have cs:
    "cs = map (\<lambda>k. lower + real k * step) [0 ..< nat \<lceil>(upper - lower) / step\<rceil>]"
    using arange_exact [OF assms(2), of e] assms(3) by simp
  then show len: "length cs = nat \<lceil>(upper - lower) / step\<rceil>" by simp
  show "cs = map (\<lambda>k. lower + real k * step) [0 ..< length cs]"
    using cs len by simp
  show "\<forall>c\<in>set cs. lower \<le> c \<and> c < upper"
  proof
    fix c assume "c \<in> set cs"
    then obtain k where k: "k < nat \<lceil>(upper - lower) / step\<rceil>"
      and c: "c = lower + real k * step"
      using cs by auto
    have "real k < (upper - lower) / step" using below_ceiling [OF k] .
    then have "real k * step < upper - lower"
      using assms(1) by (simp add: pos_less_divide_eq)
    moreover have "0 \<le> real k * step" using assms(1) by simp
    ultimately show "lower \<le> c \<and> c < upper" using c by linarith
  qed
qed

lemma grid_of_aranges:
  assumes xs: "arange e x1 x2 dx = Inr xs" and ys: "arange e y1 y2 dy = Inr ys"
    and g: "WindGrid_init xs ys = Inr g" and dx: "0 < dx" and dy: "0 < dy"
    and ex: "exact_range x1 x2 dx" and ey: "exact_range y1 y2 dy"
  shows "n_latitude g = nat \<lceil>(y2 - y1) / dy\<rceil>
     \<and> n_longitude g = nat \<lceil>(x2 - x1) / dx\<rceil>
     \<and> lat1d g = map (\<lambda>k. y1 + real k * dy) [0 ..< n_latitude g]
     \<and> (\<forall>c\<in>set (lat1d g). y1 \<le> c \<and> c < y2)
     \<and> (x2 \<le> 180 \<longrightarrow>
          lon1d g = map (\<lambda>k. x1 + real k * dx) [0 ..< n_longitude g]
          \<and> (\<forall>c\<in>set (lon1d g). x1 \<le> c \<and> c < x2))"
proof -
  note f = WindGrid_init_fields [OF g]
  have n: "n_latitude g = nat \<lceil>(y2 - y1) / dy\<rceil>"
    using arange_points(1) [OF dy ey ys] f(4) by simp
  have m: "n_longitude g = nat \<lceil>(x2 - x1) / dx\<rceil>"
    using arange_points(1) [OF dx ex xs] f(3) by simp
  have a: "lat1d g = map (\<lambda>k. y1 + real k * dy) [0 ..< n_latitude g]"
    using arange_points(2) [OF dy ey ys] f(4,8) by simp
  have b: "\<forall>c\<in>set (lat1d g). y1 \<le> c \<and> c < y2"
    using arange_points(3) [OF dy ey ys] f(8) by simp
  have c: "x2 \<le> 180 \<longrightarrow>
          lon1d g = map (\<lambda>k. x1 + real k * dx) [0 ..< n_longitude g]
          \<and> (\<forall>c\<in>set (lon1d g). x1 \<le> c \<and> c < x2)"
  proof
    assume le: "x2 \<le> 180"
    have inr: "\<forall>c\<in>set xs. x1 \<le> c \<and> c < x2" using arange_points(3) [OF dx ex xs] .
    then have "\<forall>c\<in>set xs. wrap_longitude c = c"
      using le by (auto simp add: wrap_longitude_def)
    then have "map wrap_longitude xs = xs" by (simp add: map_idI)
    then have l: "lon1d g = xs" using f(7) by simp
    show "lon1d g = map (\<lambda>k. x1 + real k * dx) [0 ..< n_longitude g]
          \<and> (\<forall>c\<in>set (lon1d g). x1 \<le> c \<and> c < x2)"
      using arange_points(2) [OF dx ex xs] inr l f(3) by simp
  qed
  show ?thesis using n m a b c by blast
qed

lemma corners_half_open:
  assumes "generate_equidistant_grid_from_corners x1 y1 x2 y2 dx dy = Inr g"
    and "0 < dx" and "0 < dy" and "exact_range x1 x2 dx" and "exact_range y1 y2 dy"
  shows "n_latitude g = nat \<lceil>(y2 - y1) / dy\<rceil>
     \<and> n_longitude g = nat \<lceil>(x2 - x1) / dx\<rceil>
     \<and> lat1d g = map (\<lambda>k. y1 + real k * dy) [0 ..< n_latitude g]
     \<and> (\<forall>c\<in>set (lat1d g). y1 \<le> c \<and> c < y2)
     \<and> (x2 \<le> 180 \<longrightarrow>
          lon1d g = map (\<lambda>k. x1 + real k * dx) [0 ..< n_longitude g]
          \<and> (\<forall>c\<in>set (lon1d g). x1 \<le> c \<and> c < x2))"
proof -
  obtain xs ys where "arange ZeroDivisionError x1 x2 dx = Inr xs"
    and "arange ZeroDivisionError y1 y2 dy = Inr ys"
    and "WindGrid_init xs ys = Inr g"
    using assms(1) unfolding generate_equidistant_grid_from_corners_def and_then_Inr by blast
  then show ?thesis using grid_of_aranges assms(2-) by blast
qed

lemma source_grid_half_open:
  assumes "generate_equidistant_grid_from_grid src = Inr g"
    and "0 < d_longitude src" and "0 < d_latitude src"
    and "exact_range (xll src) (xur src) (d_longitude src)"
    and "exact_range (yll src) (yur src) (d_latitude src)"
  shows "n_latitude g = nat \<lceil>(yur src - yll src) / d_latitude src\<rceil>
     \<and> n_longitude g = nat \<lceil>(xur src - xll src) / d_longitude src\<rceil>
     \<and> lat1d g = map (\<lambda>k. yll src + real k * d_latitude src) [0 ..< n_latitude g]
     \<and> (\<forall>c\<in>set (lat1d g). yll src \<le> c \<and> c < yur src)
     \<and> (xur src \<le> 180 \<longrightarrow>
          lon1d g = map (\<lambda>k. xll src + real k * d_longitude src) [0 ..< n_longitude g]
          \<and> (\<forall>c\<in>set (lon1d g). xll src \<le> c \<and> c < xur src))"
proof -
  obtain xs ys where "arange ValueError (xll src) (xur src) (d_longitude src) = Inr xs"
    and "arange ValueError (yll src) (yur src) (d_latitude src) = Inr ys"
    and "WindGrid_init xs ys = Inr g"
    using assms(1) unfolding generate_equidistant_grid_from_grid_def and_then_Inr by blast
  then show ?thesis using grid_of_aranges assms(2-) by blast
qed

text \<open>Corners and steps that are multiples of a quarter of a degree, the span a multiple
  of the step: the double arithmetic of the range is exact.\<close>

lemma exact_range_quarters:
  assumes a: "\<bar>a\<bar> < 2 ^ 50" and b: "\<bar>b\<bar> < 2 ^ 50" and c: "0 < c" and ab: "a \<le> b"
    and q: "b - a = n * c"
  shows "exact_range (real_of_int a / 4) (real_of_int b / 4) (real_of_int c / 4)"
proof -
  let ?s = "real_of_int a / 4" and ?t = "real_of_int b / 4" and ?d = "real_of_int c / 4"
  have span: "?t - ?s = real_of_int (b - a) / 4" by (simp add: diff_divide_distrib)
  have "\<bar>b - a\<bar> < 2 ^ 53" using a b by simp
  then have e1: "binary64 (?t - ?s) = ?t - ?s"
    using binary64_quarters [of "b - a"] span by (simp only:)
  have c0: "real_of_int c \<noteq> 0" using c by simp
  have quot: "(?t - ?s) / ?d = real_of_int n"
    using c0 span q by simp
  have n0: "0 \<le> n"
  proof (rule ccontr)
    assume "\<not> 0 \<le> n"
    then have "n * c < 0" using c by (simp add: mult_less_0_iff)
    then show False using q ab by simp
  qed
  have "n \<le> n * c" using c n0 by (simp add: mult_le_cancel_left1)
  then have "\<bar>n\<bar> < 2 ^ 53" using n0 q a b by simp
  then have e2: "\<lceil>binary64 ((?t - ?s) / ?d)\<rceil> = \<lceil>(?t - ?s) / ?d\<rceil>"
    using binary64_int [of n] quot by (simp only:)
  have e3: "\<forall>k<nat \<lceil>(?t - ?s) / ?d\<rceil>.
      binary64 (real k * ?d) = real k * ?d \<and> binary64 (?s + real k * ?d) = ?s + real k * ?d"
  proof (intro allI impI)
    fix k assume "k < nat \<lceil>(?t - ?s) / ?d\<rceil>"
    then have kn: "int k < n" using quot by simp
    then have "int k * c < n * c" using c by simp
    then have kc: "int k * c < b - a" using q by simp
    have kc0: "0 \<le> int k * c" using c by simp
    have m1: "real k * ?d = real_of_int (int k * c) / 4" by simp
    have m2: "?s + real k * ?d = real_of_int (a + int k * c) / 4" by (simp add: add_divide_distrib)
    have "\<bar>int k * c\<bar> < 2 ^ 53" using kc kc0 a b by simp
    then have r1: "binary64 (real k * ?d) = real k * ?d"
      using binary64_quarters [of "int k * c"] m1 by (simp only:)
    have "\<bar>a + int k * c\<bar> < 2 ^ 53" using kc kc0 a b by simp
    then have r2: "binary64 (?s + real k * ?d) = ?s + real k * ?d"
      using binary64_quarters [of "a + int k * c"] m2 by (simp only:)
    show "binary64 (real k * ?d) = real k * ?d
      \<and> binary64 (?s + real k * ?d) = ?s + real k * ?d"
      using r1 r2 by blast
  qed
  show ?thesis unfolding exact_range_def using e1 e2 e3 by blast
qed

lemma double_span: "binary64 (1351079888211149 / 4503599627370496) = 1351079888211149 / 4503599627370496"
proof -
  have "binary64 (1351079888211149 / 4503599627370496) = real_of_int (py_round ((1351079888211149 / 4503599627370496) * 2 ^ (52 + 2))) / 2 ^ (52 + 2)"
    by (rule binary64_below_1 [where n = 2]) simp_all
  also have "\<dots> = 1351079888211149 / 4503599627370496" by (simp add: py_round_def)
  finally show ?thesis .
qed

lemma double_quotient: "binary64 (10808639105689192 / 3602879701896397) = 6755399441055745 / 2251799813685248"
proof -
  have "binary64 (10808639105689192 / 3602879701896397) = real_of_int (py_round ((10808639105689192 / 3602879701896397) * 2 ^ (52 - 1))) / 2 ^ (52 - 1)"
    by (rule binary64_from_1 [where n = 1]) simp_all
  also have "\<dots> = 6755399441055745 / 2251799813685248" by (simp add: py_round_def)
  finally show ?thesis .
qed

lemma double_point_1: "binary64 (39631676720860365 / 36028797018963968) = 2476979795053773 / 2251799813685248"
proof -
  have "binary64 (39631676720860365 / 36028797018963968) = real_of_int (py_round ((39631676720860365 / 36028797018963968) * 2 ^ (52 - 0))) / 2 ^ (52 - 0)"
    by (rule binary64_from_1 [where n = 0]) simp_all
  also have "\<dots> = 2476979795053773 / 2251799813685248" by (simp add: py_round_def)
  finally show ?thesis .
qed

lemma double_delta: "binary64 (225179981368525 / 2251799813685248) = 225179981368525 / 2251799813685248"
proof -
  have "binary64 (225179981368525 / 2251799813685248) = real_of_int (py_round ((225179981368525 / 2251799813685248) * 2 ^ (52 + 4))) / 2 ^ (52 + 4)"
    by (rule binary64_below_1 [where n = 4]) simp_all
  also have "\<dots> = 225179981368525 / 2251799813685248" by (simp add: py_round_def)
  finally show ?thesis .
qed

lemma double_2_delta: "binary64 (225179981368525 / 1125899906842624) = 225179981368525 / 1125899906842624"
proof -
  have "binary64 (225179981368525 / 1125899906842624) = real_of_int (py_round ((225179981368525 / 1125899906842624) * 2 ^ (52 + 3))) / 2 ^ (52 + 3)"
    by (rule binary64_below_1 [where n = 3]) simp_all
  also have "\<dots> = 225179981368525 / 1125899906842624" by (simp add: py_round_def)
  finally show ?thesis .
qed

lemma double_point_2: "binary64 (1351079888211149 / 1125899906842624) = 1351079888211149 / 1125899906842624"
proof -
  have "binary64 (1351079888211149 / 1125899906842624) = real_of_int (py_round ((1351079888211149 / 1125899906842624) * 2 ^ (52 - 0))) / 2 ^ (52 - 0)"
    by (rule binary64_from_1 [where n = 0]) simp_all
  also have "\<dots> = 1351079888211149 / 1125899906842624" by (simp add: py_round_def)
  finally show ?thesis .
qed

lemma double_3_delta: "binary64 (675539944105575 / 2251799813685248) = 675539944105575 / 2251799813685248"
proof -
  have "binary64 (675539944105575 / 2251799813685248) = real_of_int (py_round ((675539944105575 / 2251799813685248) * 2 ^ (52 + 2))) / 2 ^ (52 + 2)"
    by (rule binary64_below_1 [where n = 2]) simp_all
  also have "\<dots> = 675539944105575 / 2251799813685248" by (simp add: py_round_def)
  finally show ?thesis .
qed

lemma double_point_3: "binary64 (2927339757790823 / 2251799813685248) = 2927339757790823 / 2251799813685248"
proof -
  have "binary64 (2927339757790823 / 2251799813685248) = real_of_int (py_round ((2927339757790823 / 2251799813685248) * 2 ^ (52 - 0))) / 2 ^ (52 - 0)"
    by (rule binary64_from_1 [where n = 0]) simp_all
  also have "\<dots> = 2927339757790823 / 2251799813685248" by (simp add: py_round_def)
  finally show ?thesis .
qed

lemma double_four_thirds: "binary64 (4 / 3) = 6004799503160661 / 4503599627370496"
proof -
  have "binary64 (4 / 3) = real_of_int (py_round ((4 / 3) * 2 ^ (52 - 0))) / 2 ^ (52 - 0)"
    by (rule binary64_from_1 [where n = 0]) simp_all
  also have "\<dots> = 6004799503160661 / 4503599627370496" by (simp add: py_round_def)
  finally show ?thesis .
qed

lemma arange_one_to_1_3:
  "arange ZeroDivisionError 1 (5854679515581645 / 4503599627370496)
       (3602879701896397 / 36028797018963968)
     = Inr [1, 2476979795053773 / 2251799813685248, 1351079888211149 / 1125899906842624,
            2927339757790823 / 2251799813685248]"
  by (simp add: arange_def arange_point_def upt_rec double_span double_quotient double_point_1
      double_delta double_2_delta double_point_2 double_3_delta double_point_3)

lemma arange_1_3_1: "arange ZeroDivisionError 1 3 1 = Inr [1, 2]"
  by (simp add: arange_def arange_point_def upt_rec round_examples)

lemma arange_across_180: "arange ZeroDivisionError 170 190 5 = Inr [170, 175, 180, 185]"
  by (simp add: arange_def arange_point_def upt_rec round_examples)

lemma arange_1_11_5: "arange ZeroDivisionError 1 11 5 = Inr [1, 6]"
  by (simp add: arange_def arange_point_def upt_rec round_examples)

lemma exact_range_three_quarters: "exact_range (- 80) (- 79) (3 / 4)"
proof -
  have c: "nat \<lceil>(- 79 - (- 80)) / (3 / 4 :: real)\<rceil> = 2" by simp
  have q: "\<lceil>binary64 ((- 79 - (- 80)) / (3 / 4))\<rceil> = \<lceil>(- 79 - (- 80)) / (3 / 4 :: real)\<rceil>"
    by (simp add: double_four_thirds)
  have "binary64 (- 317 / 4) = - 317 / 4" using binary64_quarters [of "- 317"] by simp
  moreover have "binary64 (3 / 4) = 3 / 4" using binary64_quarters [of 3] by simp
  ultimately have "\<forall>k<2. binary64 (real k * (3 / 4)) = real k * (3 / 4)
      \<and> binary64 (- 80 + real k * (3 / 4)) = - 80 + real k * (3 / 4)"
    by (simp add: less_2_cases_iff round_examples)
  then show ?thesis
    unfolding exact_range_def c using q by (simp add: round_examples)
qed

lemma exact_range_10_11_quarter: "exact_range 10 11 (1 / 4)"
  using exact_range_quarters [of 40 44 1 4] by simp

lemma exact_range_quarter_lon: "exact_range 0 (1 / 2) (1 / 4)"
  using exact_range_quarters [of 0 2 1 2] by simp

lemma exact_range_quarter_lat: "exact_range 10 (21 / 2) (1 / 4)"
  using exact_range_quarters [of 40 42 1 2] by simp

lemma corners_example:
  "\<exists>g. generate_equidistant_grid_from_corners (- 80) 10 (- 79) 11 (3 / 4) (1 / 4) = Inr g"
proof -
  have x: "arange ZeroDivisionError (- 80) (- 79) (3 / 4) = Inr [- 80, - 80 + 3 / 4]"
    using arange_exact [OF exact_range_three_quarters, of ZeroDivisionError]
    by (simp add: upt_rec)
  have y: "arange ZeroDivisionError 10 11 (1 / 4)
      = Inr [10, 10 + 1 / 4, 10 + 2 * (1 / 4), 10 + 3 * (1 / 4)]"
    using arange_exact [OF exact_range_10_11_quarter, of ZeroDivisionError]
    by (simp add: upt_rec)
  show ?thesis
    by (simp add: generate_equidistant_grid_from_corners_def and_then_simps x y
        WindGrid_init_def)
qed

lemma source_grid_example:
  "\<exists>g. generate_equidistant_grid_from_grid quarter_degree_grid = Inr g"
proof -
  have x: "arange ValueError 0 (1 / 2) (1 / 4) = Inr [0, 0 + 1 / 4]"
    using arange_exact [OF exact_range_quarter_lon, of ValueError] by (simp add: upt_rec)
  have y: "arange ValueError 10 (21 / 2) (1 / 4) = Inr [10, 10 + 1 / 4]"
    using arange_exact [OF exact_range_quarter_lat, of ValueError] by (simp add: upt_rec)
  show ?thesis
    by (simp add: generate_equidistant_grid_from_grid_def and_then_simps
        quarter_degree_grid_def x y WindGrid_init_def)
qed

text \<open>
  C8, as the claim states it, keeps every coordinate of an equidistant grid below the
  upper-right corner. Two calls of \<open>generate_equidistant_grid\<close> with six non-zero keyword
  arguments, lower-left below upper-right and positive steps, give a grid that does not.
  From longitude 1 to 1.3 in steps of 0.1 (the doubles nearest to these), the rounded
  quotient is above 3, so the axis has four points, and the last one,
  1.3000000000000003, lies above the upper-right longitude. From longitude 170 to 190
  in steps of 5 the points above 180 are stored shifted by -360, so the axis is
  170, 175, 180, -175 and its last point lies below the lower-left longitude.
\<close>

theorem equidistant_range_counterexample:
  "(case generate_equidistant_grid None (Some 1) (Some 1)
           (Some (5854679515581645 / 4503599627370496)) (Some 3)
           (Some (3602879701896397 / 36028797018963968)) (Some 1) of
      Inl e \<Rightarrow> False
    | Inr g \<Rightarrow> n_longitude g = 4
        \<and> lon1d g = [1, 2476979795053773 / 2251799813685248,
                      1351079888211149 / 1125899906842624,
                      2927339757790823 / 2251799813685248]
        \<and> 5854679515581645 / 4503599627370496 < last (lon1d g))
   \<and> (case generate_equidistant_grid None (Some 170) (Some 1) (Some 190) (Some 11)
           (Some 5) (Some 5) of
      Inl e \<Rightarrow> False
    | Inr g \<Rightarrow> lon1d g = [170, 175, 180, - 175] \<and> last (lon1d g) < 170)"
  by (simp add: generate_equidistant_grid_def truthy_def
      generate_equidistant_grid_from_corners_def and_then_simps
      arange_one_to_1_3 arange_1_3_1 arange_across_180 arange_1_11_5
      WindGrid_init_def wrap_longitude_def)

text \<open>
  C8, amended. Take an equidistant grid built with positive steps, from explicit corners
  and steps or from the bounding box and the spacing of a source grid, where the double
  arithmetic of the two ranges is exact (\<open>exact_range\<close>; it is for corners and steps that
  are multiples of a quarter of a degree, below \<open>2 ^ 48\<close>, the span a multiple of the
  step). Then each axis has \<open>ceil ((upper - lower) / step)\<close> points, the latitude axis is
  the list of the points \<open>lower + k * step\<close>, and every latitude \<open>c\<close> has
  \<open>lower \<le> c < upper\<close>; the same holds of the longitude axis when the upper-right
  longitude is at most 180. The upper-right corner is then never a point of the grid.
\<close>

theorem equidistant_axes_half_open:
  "(generate_equidistant_grid_from_corners x1 y1 x2 y2 dx dy = Inr g \<and> 0 < dx \<and> 0 < dy
      \<and> exact_range x1 x2 dx \<and> exact_range y1 y2 dy \<longrightarrow>
      n_latitude g = nat \<lceil>(y2 - y1) / dy\<rceil>
      \<and> n_longitude g = nat \<lceil>(x2 - x1) / dx\<rceil>
      \<and> lat1d g = map (\<lambda>k. y1 + real k * dy) [0 ..< n_latitude g]
      \<and> (\<forall>c\<in>set (lat1d g). y1 \<le> c \<and> c < y2)
      \<and> (x2 \<le> 180 \<longrightarrow>
           lon1d g = map (\<lambda>k. x1 + real k * dx) [0 ..< n_longitude g]
           \<and> (\<forall>c\<in>set (lon1d g). x1 \<le> c \<and> c < x2)))
   \<and> (generate_equidistant_grid_from_grid src = Inr g' \<and> 0 < d_longitude src
        \<and> 0 < d_latitude src
        \<and> exact_range (xll src) (xur src) (d_longitude src)
        \<and> exact_range (yll src) (yur src) (d_latitude src) \<longrightarrow>
      n_latitude g' = nat \<lceil>(yur src - yll src) / d_latitude src\<rceil>
      \<and> n_longitude g' = nat \<lceil>(xur src - xll src) / d_longitude src\<rceil>
      \<and> lat1d g' = map (\<lambda>k. yll src + real k * d_latitude src) [0 ..< n_latitude g']
      \<and> (\<forall>c\<in>set (lat1d g'). yll src \<le> c \<and> c < yur src)
      \<and> (xur src \<le> 180 \<longrightarrow>
           lon1d g' = map (\<lambda>k. xll src + real k * d_longitude src) [0 ..< n_longitude g']
           \<and> (\<forall>c\<in>set (lon1d g'). xll src \<le> c \<and> c < xur src)))
   \<and> (\<bar>a\<bar> < 2 ^ 50 \<and> \<bar>b\<bar> < 2 ^ 50 \<and> 0 < c \<and> a \<le> b \<and> b - a = n * c \<longrightarrow>
        exact_range (real_of_int a / 4) (real_of_int b / 4) (real_of_int c / 4))"
  using corners_half_open [of x1 y1 x2 y2 dx dy g] source_grid_half_open [of src g']
    exact_range_quarters [of a b c n]
  by blast

theorem equidistant_axes_half_open_witness:
  "(\<exists>g. generate_equidistant_grid_from_corners (- 80) 10 (- 79) 11 (3 / 4) (1 / 4) = Inr g
       \<and> n_longitude g = 2 \<and> n_latitude g = 4
       \<and> lon1d g = [- 80, - 317 / 4] \<and> lat1d g = [10, 41 / 4, 21 / 2, 43 / 4]
       \<and> list_all (\<lambda>c. 10 \<le> c \<and> c < 11) (lat1d g)
       \<and> list_all (\<lambda>c. - 80 \<le> c \<and> c < - 79) (lon1d g))
   \<and> (\<exists>g. generate_equidistant_grid_from_grid quarter_degree_grid = Inr g
       \<and> n_longitude g = 2 \<and> n_latitude g = 2
       \<and> list_all (\<lambda>c. 10 \<le> c \<and> c < 21 / 2) (lat1d g)
       \<and> list_all (\<lambda>c. 0 \<le> c \<and> c < 1 / 2) (lon1d g))
   \<and> exact_range 10 11 (1 / 4)"
proof -
  obtain g where g:
    "generate_equidistant_grid_from_corners (- 80) 10 (- 79) 11 (3 / 4) (1 / 4) = Inr g"
    using corners_example by blast
  obtain g' where g': "generate_equidistant_grid_from_grid quarter_degree_grid = Inr g'"
    using source_grid_example by blast
  have src: "exact_range (xll quarter_degree_grid) (xur quarter_degree_grid)
        (d_longitude quarter_degree_grid)"
      "exact_range (yll quarter_degree_grid) (yur quarter_degree_grid)
        (d_latitude quarter_degree_grid)"
    using exact_range_quarter_lon exact_range_quarter_lat
    by (simp_all add: quarter_degree_grid_def)
  note whole = equidistant_axes_half_open
      [of "- 80" 10 "- 79" 11 "3 / 4" "1 / 4" g quarter_degree_grid g' 40 44 1 4]
  have first: "n_latitude g = nat \<lceil>(11 - 10) / (1 / 4 :: real)\<rceil>
      \<and> n_longitude g = nat \<lceil>(- 79 - (- 80)) / (3 / 4 :: real)\<rceil>
      \<and> lat1d g = map (\<lambda>k. 10 + real k * (1 / 4)) [0 ..< n_latitude g]
      \<and> (\<forall>c\<in>set (lat1d g). 10 \<le> c \<and> c < 11)
      \<and> (- 79 \<le> (180 :: real) \<longrightarrow>
           lon1d g = map (\<lambda>k. - 80 + real k * (3 / 4)) [0 ..< n_longitude g]
           \<and> (\<forall>c\<in>set (lon1d g). - 80 \<le> c \<and> c < - 79))"
    using whole g exact_range_three_quarters exact_range_10_11_quarter by simp
  then have n: "n_latitude g = 4" "n_longitude g = 2" by simp_all
  have a: "lon1d g = [- 80, - 317 / 4] \<and> lat1d g = [10, 41 / 4, 21 / 2, 43 / 4]
      \<and> list_all (\<lambda>c. 10 \<le> c \<and> c < 11) (lat1d g)
      \<and> list_all (\<lambda>c. - 80 \<le> c \<and> c < - 79) (lon1d g)"
    using first by (simp add: n upt_rec)
  have second: "n_latitude g' = nat \<lceil>(21 / 2 - 10) / (1 / 4 :: real)\<rceil>
      \<and> n_longitude g' = nat \<lceil>(1 / 2 - 0) / (1 / 4 :: real)\<rceil>
      \<and> (\<forall>c\<in>set (lat1d g'). 10 \<le> c \<and> c < 21 / 2)
      \<and> (\<forall>c\<in>set (lon1d g'). 0 \<le> c \<and> c < 1 / 2)"
    using whole g' src by (simp add: quarter_degree_grid_def)
  then have b: "n_longitude g' = 2 \<and> n_latitude g' = 2
      \<and> list_all (\<lambda>c. 10 \<le> c \<and> c < 21 / 2) (lat1d g')
      \<and> list_all (\<lambda>c. 0 \<le> c \<and> c < 1 / 2) (lon1d g')"
    by (simp add: list_all_iff)
  have third: "exact_range 10 11 (1 / 4)" using whole by simp
  show ?thesis using a b n g g' third by blast
qed

section \<open>Appending to the output container\<close>
























end
